theory Spec2Isabelle
  imports Complex_Main
begin

section \<open>Voice-of-customer analyzer: data model\<close>

text \<open>
  The analyzer (\<^verbatim>\<open>src/analyzer.py\<close>) loads a table of customer feedback, formats the rows
  whose signal score exceeds 7.0 into a prompt, sends the prompt to a hosted text-generation
  service and merges the answer with statistics over the whole table.

  Numbers are modelled exactly: a float cell is a rational \<open>Num x\<close> or the missing value
  \<open>NaN\<close>; rounding of binary floating point is not modelled. A text cell is \<open>Str s\<close>.
\<close>

datatype cell = Str string | Num rat | NaN

datatype error =
    KeyError string
  | TypeError
  | IndexError
  | LoadError string
  | APIError string

type_synonym series = "cell list"

type_synonym row = "string \<Rightarrow> cell"

text \<open>
  A data frame has named columns and an ordered sequence of rows. A row is read only at
  the names listed in \<open>columns\<close>; every lookup checks the name first.
\<close>

record dataframe =
  columns :: "string list"
  rows :: "row list"

text \<open>One entry of the feedback table, as the specification's data model has it.\<close>

record feedback_row =
  fb_stage :: string
  fb_text :: string
  fb_score :: rat

definition row_of :: "feedback_row \<Rightarrow> row" where
  "row_of t = (\<lambda>c.
     if c = ''checkout_stage'' then Str (fb_stage t)
     else if c = ''feedback_text'' then Str (fb_text t)
     else if c = ''signal_score'' then Num (fb_score t)
     else NaN)"

definition frame_of :: "feedback_row list \<Rightarrow> dataframe" where
  "frame_of T =
     \<lparr>columns = [''checkout_stage'', ''feedback_text'', ''signal_score''],
      rows = map row_of T\<rparr>"

text \<open>The result dictionary of \<^verbatim>\<open>_extract_signals\<close>; \<open>top_stages\<close> is a dictionary in
  insertion order, hence an association list.\<close>

record signals =
  summary :: string
  high_priority_count :: nat
  total_analyzed :: nat
  top_stages :: "(cell \<times> nat) list"
  avg_signal_score :: cell

record request =
  model :: string
  max_tokens :: nat
  content :: string

text \<open>
  What the program cannot decide by itself is a parameter: the process environment, the
  table reader applied to the file system, the client library (\<open>new_client\<close> is the
  error its constructor raises for a credential, if any; \<open>messages_create\<close>, given the
  credential and the request, answers with the texts of the content blocks, or fails),
  and the two number formats of the host language (\<open>repr_float\<close> for \<^verbatim>\<open>{x}\<close>,
  \<open>format_2f\<close> for \<^verbatim>\<open>{x:.2f}\<close>).
\<close>

record platform =
  environ :: "string \<rightharpoonup> string"
  read_csv :: "string \<Rightarrow> error + dataframe"
  new_client :: "string option \<Rightarrow> error option"
  messages_create :: "string option \<Rightarrow> request \<Rightarrow> error + string list"
  repr_float :: "rat \<Rightarrow> string"
  format_2f :: "cell \<Rightarrow> string"

text \<open>The observable effects: files handed to the reader, requests sent to the remote
  service, and the strings printed, each oldest first.\<close>

record world =
  loads :: "string list"
  requests :: "request list"
  stdout :: "string list"

text \<open>The analyzer holds its client, which is represented by the credential it was
  constructed with.\<close>

record analyzer =
  client_api_key :: "string option"

datatype status = Completed | Exit nat | Uncaught error

fun exit_code :: "status \<Rightarrow> nat" where
  "exit_code Completed = 0"
| "exit_code (Exit n) = n"
| "exit_code (Uncaught e) = 1"

section \<open>Table operations\<close>

text \<open>
  The operations of the table library that the analyzer calls. The library is not part
  of the repository; each operation is modelled after its documented behaviour on the
  cells above.
\<close>

definition df_getitem :: "dataframe \<Rightarrow> string \<Rightarrow> error + series" where
  "df_getitem df c =
     (if c \<in> set (columns df) then Inr (map (\<lambda>r. r c) (rows df)) else Inl (KeyError c))"

definition row_getitem :: "dataframe \<Rightarrow> row \<Rightarrow> string \<Rightarrow> error + cell" where
  "row_getitem df r c = (if c \<in> set (columns df) then Inr (r c) else Inl (KeyError c))"

text \<open>Comparison with a number: a missing value compares false, a text cell raises.\<close>

fun cell_gt :: "cell \<Rightarrow> rat \<Rightarrow> error + bool" where
  "cell_gt (Num x) t = Inr (t < x)"
| "cell_gt NaN t = Inr False"
| "cell_gt (Str s) t = Inl TypeError"

fun series_gt :: "series \<Rightarrow> rat \<Rightarrow> error + bool list" where
  "series_gt [] t = Inr []"
| "series_gt (c # cs) t =
     (case cell_gt c t of
        Inl e \<Rightarrow> Inl e
      | Inr b \<Rightarrow> (case series_gt cs t of Inl e \<Rightarrow> Inl e | Inr bs \<Rightarrow> Inr (b # bs)))"

definition df_mask :: "dataframe \<Rightarrow> bool list \<Rightarrow> dataframe" where
  "df_mask df m = df\<lparr>rows := map fst (filter snd (zip (rows df) m))\<rparr>"

definition df_len :: "dataframe \<Rightarrow> nat" where
  "df_len df = length (rows df)"

definition iterrows :: "dataframe \<Rightarrow> row list" where
  "iterrows df = rows df"

text \<open>The mean skips missing values; nothing left to average gives \<open>NaN\<close>.\<close>

fun nan_sum_count :: "series \<Rightarrow> error + rat \<times> nat" where
  "nan_sum_count [] = Inr (0, 0)"
| "nan_sum_count (Str s # cs) = Inl TypeError"
| "nan_sum_count (NaN # cs) = nan_sum_count cs"
| "nan_sum_count (Num x # cs) =
     (case nan_sum_count cs of Inl e \<Rightarrow> Inl e | Inr (s, n) \<Rightarrow> Inr (x + s, Suc n))"

definition series_mean :: "series \<Rightarrow> error + cell" where
  "series_mean cs =
     (case nan_sum_count cs of
        Inl e \<Rightarrow> Inl e
      | Inr (s, n) \<Rightarrow> Inr (if n = 0 then NaN else Num (s / of_nat n)))"

text \<open>
  Frequency table: missing values are dropped, the distinct values are counted in the
  order of their first occurrence, and the table is sorted by descending count. The sort
  is stable, so that equally frequent values keep the order of their first occurrence,
  which is the tie order the specification describes.
\<close>

definition dropna :: "series \<Rightarrow> series" where
  "dropna cs = filter (\<lambda>c. c \<noteq> NaN) cs"

fun count_value :: "cell \<Rightarrow> (cell \<times> nat) list \<Rightarrow> (cell \<times> nat) list" where
  "count_value v [] = [(v, 1)]"
| "count_value v ((k, n) # kns) =
     (if k = v then (k, Suc n) # kns else (k, n) # count_value v kns)"

definition unique_counts :: "series \<Rightarrow> (cell \<times> nat) list" where
  "unique_counts cs = foldl (\<lambda>acc v. count_value v acc) [] cs"

definition value_counts :: "series \<Rightarrow> (cell \<times> nat) list" where
  "value_counts cs = sort_key (\<lambda>kn. - int (snd kn)) (unique_counts (dropna cs))"

definition head :: "nat \<Rightarrow> (cell \<times> nat) list \<Rightarrow> (cell \<times> nat) list" where
  "head n s = take n s"

text \<open>A dictionary keeps its keys in insertion order; storing under a key that is
  present replaces the value in place.\<close>

fun dict_set :: "(cell \<times> nat) list \<Rightarrow> cell \<Rightarrow> nat \<Rightarrow> (cell \<times> nat) list" where
  "dict_set [] k v = [(k, v)]"
| "dict_set ((k', v') # d) k v =
     (if k' = k then (k, v) # d else (k', v') # dict_set d k v)"

definition to_dict :: "(cell \<times> nat) list \<Rightarrow> (cell \<times> nat) list" where
  "to_dict s = foldl (\<lambda>d kv. dict_set d (fst kv) (snd kv)) [] s"

section \<open>The analyzer\<close>

definition truthy :: "string option \<Rightarrow> bool" where
  "truthy v = (case v of None \<Rightarrow> False | Some s \<Rightarrow> s \<noteq> [])"

definition py_or :: "string option \<Rightarrow> string option \<Rightarrow> string option" where
  "py_or a b = (if truthy a then a else b)"

definition init :: "platform \<Rightarrow> string option \<Rightarrow> error + analyzer" where
  "init P api_key =
     (let key = py_or api_key (environ P ''ANTHROPIC_API_KEY'')
      in case new_client P key of
           Some e \<Rightarrow> Inl e
         | None \<Rightarrow> Inr \<lparr>client_api_key = key\<rparr>)"

fun format_cell :: "platform \<Rightarrow> cell \<Rightarrow> string" where
  "format_cell P (Str s) = s"
| "format_cell P (Num x) = repr_float P x"
| "format_cell P NaN = ''nan''"

fun append_rows :: "platform \<Rightarrow> dataframe \<Rightarrow> row list \<Rightarrow> string \<Rightarrow> error + string" where
  "append_rows P df [] formatted = Inr formatted"
| "append_rows P df (r # rest) formatted =
     (case row_getitem df r ''checkout_stage'' of
        Inl e \<Rightarrow> Inl e
      | Inr stage \<Rightarrow>
     (case row_getitem df r ''feedback_text'' of
        Inl e \<Rightarrow> Inl e
      | Inr text \<Rightarrow>
     (case row_getitem df r ''signal_score'' of
        Inl e \<Rightarrow> Inl e
      | Inr score \<Rightarrow>
          append_rows P df rest
            (formatted @ ''['' @ format_cell P stage @ ''] '' @ format_cell P text
               @ '' (score: '' @ format_cell P score @ '')\<newline>''))))"

definition prepare_feedback :: "platform \<Rightarrow> dataframe \<Rightarrow> error + string" where
  "prepare_feedback P df =
     (case df_getitem df ''signal_score'' of
        Inl e \<Rightarrow> Inl e
      | Inr scores \<Rightarrow>
     (case series_gt scores 7 of
        Inl e \<Rightarrow> Inl e
      | Inr m \<Rightarrow>
          (let high_signal = df_mask df m
           in append_rows P high_signal (iterrows high_signal)
                ''High-priority customer feedback:\<newline>\<newline>'')))"

definition prompt :: "string \<Rightarrow> string" where
  "prompt feedback_text =
     ''Analyze this customer feedback and identify:\<newline>''
     @ ''                1. Top 3 themes or patterns\<newline>''
     @ ''                2. Urgent technical issues requiring attention\<newline>''
     @ ''                3. UX friction points\<newline>''
     @ ''                \<newline>''
     @ ''                Customer Feedback:\<newline>''
     @ ''                '' @ feedback_text @ ''\<newline>''
     @ ''                \<newline>''
     @ ''                Format your response as:\<newline>''
     @ ''                THEMES: [list themes]\<newline>''
     @ ''                URGENT ISSUES: [list critical problems]\<newline>''
     @ ''                UX FRICTION: [list usability problems]''"

definition call_claude_api ::
  "platform \<Rightarrow> analyzer \<Rightarrow> string \<Rightarrow> world \<Rightarrow> world \<times> (error + string)" where
  "call_claude_api P self feedback_text w =
     (let req = \<lparr>model = ''claude-sonnet-4-20250514'', max_tokens = 1500,
                 content = prompt feedback_text\<rparr>;
          w' = w\<lparr>requests := requests w @ [req]\<rparr>
      in case messages_create P (client_api_key self) req of
           Inl e \<Rightarrow> (w', Inl e)
         | Inr blocks \<Rightarrow>
             (case blocks of [] \<Rightarrow> (w', Inl IndexError) | b # _ \<Rightarrow> (w', Inr b)))"

definition extract_signals :: "string \<Rightarrow> dataframe \<Rightarrow> error + signals" where
  "extract_signals analysis df =
     (case df_getitem df ''signal_score'' of
        Inl e \<Rightarrow> Inl e
      | Inr scores \<Rightarrow>
     (case series_gt scores 7 of
        Inl e \<Rightarrow> Inl e
      | Inr m \<Rightarrow>
     (case df_getitem df ''checkout_stage'' of
        Inl e \<Rightarrow> Inl e
      | Inr stages \<Rightarrow>
     (case df_getitem df ''signal_score'' of
        Inl e \<Rightarrow> Inl e
      | Inr scores' \<Rightarrow>
     (case series_mean scores' of
        Inl e \<Rightarrow> Inl e
      | Inr avg \<Rightarrow>
          Inr \<lparr>summary = analysis,
               high_priority_count = df_len (df_mask df m),
               total_analyzed = df_len df,
               top_stages = to_dict (head 3 (value_counts stages)),
               avg_signal_score = avg\<rparr>)))))"

definition analyze_batch ::
  "platform \<Rightarrow> analyzer \<Rightarrow> string \<Rightarrow> world \<Rightarrow> world \<times> (error + signals)" where
  "analyze_batch P self csv_path w =
     (let w1 = w\<lparr>loads := loads w @ [csv_path]\<rparr>
      in case read_csv P csv_path of
           Inl e \<Rightarrow> (w1, Inl e)
         | Inr df \<Rightarrow>
        (case prepare_feedback P df of
           Inl e \<Rightarrow> (w1, Inl e)
         | Inr feedback_text \<Rightarrow>
        (case call_claude_api P self feedback_text w1 of
           (w2, Inl e) \<Rightarrow> (w2, Inl e)
         | (w2, Inr analysis) \<Rightarrow> (w2, extract_signals analysis df))))"

section \<open>The command line\<close>

definition print :: "string \<Rightarrow> world \<Rightarrow> world" where
  "print s w = w\<lparr>stdout := stdout w @ [s]\<rparr>"

fun str_nat :: "nat \<Rightarrow> string" where
  "str_nat n =
     (if n < 10 then [char_of (48 + n)]
      else str_nat (n div 10) @ [char_of (48 + n mod 10)])"

declare str_nat.simps [simp del]

fun print_stages :: "platform \<Rightarrow> (cell \<times> nat) list \<Rightarrow> world \<Rightarrow> world" where
  "print_stages P [] w = w"
| "print_stages P ((stage, n) # rest) w =
     print_stages P rest (print (''  - '' @ format_cell P stage @ '': '' @ str_nat n) w)"

definition report :: "platform \<Rightarrow> signals \<Rightarrow> world \<Rightarrow> world" where
  "report P results w0 =
     (let w1 = print ''\<newline>=== Analysis Results ==='' w0;
          w2 = print (''Total entries analyzed: '' @ str_nat (total_analyzed results)) w1;
          w3 = print (''High-priority signals: '' @ str_nat (high_priority_count results)) w2;
          w4 = print (''Average signal score: '' @ format_2f P (avg_signal_score results)) w3;
          w5 = print ''\<newline>Top checkout stages:'' w4;
          w6 = print_stages P (top_stages results) w5;
          w7 = print ''\<newline>=== Claude Analysis ==='' w6
      in print (summary results) w7)"

definition main :: "platform \<Rightarrow> string list \<Rightarrow> world \<Rightarrow> world \<times> status" where
  "main P argv w =
     (if length argv < 2 then
        (print ''Usage: python analyzer.py <path_to_feedback.csv>'' w, Exit 1)
      else
        (let csv_path = argv ! 1;
             w1 = print (''Analyzing feedback from: '' @ csv_path) w
         in case init P None of
              Inl e \<Rightarrow> (w1, Uncaught e)
            | Inr analyzer \<Rightarrow>
                (case analyze_batch P analyzer csv_path w1 of
                   (w2, Inl e) \<Rightarrow> (w2, Uncaught e)
                 | (w2, Inr results) \<Rightarrow> (report P results w2, Completed))))"

section \<open>Notions of the specification\<close>

text \<open>The arithmetic mean of a sequence of numbers; an empty sequence has none.\<close>

definition arithmetic_mean :: "rat list \<Rightarrow> rat option" where
  "arithmetic_mean xs = (if xs = [] then None else Some (sum_list xs / of_nat (length xs)))"

text \<open>One line of the formatted block: \<^verbatim>\<open>[stage] text (score: score)\<close>.\<close>

definition feedback_line :: "platform \<Rightarrow> feedback_row \<Rightarrow> string" where
  "feedback_line P t =
     ''['' @ fb_stage t @ ''] '' @ fb_text t @ '' (score: '' @ repr_float P (fb_score t) @ '')''"

text \<open>
  Ranking of stage values: \<open>a\<close> ranks before \<open>b\<close> when it is more frequent, or equally
  frequent and first seen earlier.
\<close>

definition first_pos :: "'a \<Rightarrow> 'a list \<Rightarrow> nat" where
  "first_pos x xs = length (takeWhile (\<lambda>y. y \<noteq> x) xs)"

definition ranks_before :: "'a list \<Rightarrow> 'a \<Rightarrow> 'a \<Rightarrow> bool" where
  "ranks_before xs a b =
     (count_list xs b < count_list xs a
      \<or> (count_list xs a = count_list xs b \<and> first_pos a xs < first_pos b xs))"

section \<open>Concrete inputs\<close>

definition scenario_table :: "feedback_row list" where
  "scenario_table =
     [\<lparr>fb_stage = ''cart'', fb_text = ''slow load'', fb_score = 17 / 2\<rparr>,
      \<lparr>fb_stage = ''shipping'', fb_text = ''confusing form'', fb_score = 9\<rparr>,
      \<lparr>fb_stage = ''cart'', fb_text = ''fine'', fb_score = 3\<rparr>]"

definition quiet_table :: "feedback_row list" where
  "quiet_table =
     [\<lparr>fb_stage = ''cart'', fb_text = ''fine'', fb_score = 3\<rparr>,
      \<lparr>fb_stage = ''shipping'', fb_text = ''a bit slow'', fb_score = 7\<rparr>]"

definition tie_table :: "feedback_row list" where
  "tie_table =
     [\<lparr>fb_stage = ''cart'', fb_text = ''slow load'', fb_score = 8\<rparr>,
      \<lparr>fb_stage = ''payment'', fb_text = ''card declined'', fb_score = 9\<rparr>,
      \<lparr>fb_stage = ''shipping'', fb_text = ''confusing form'', fb_score = 6\<rparr>,
      \<lparr>fb_stage = ''payment'', fb_text = ''timeout'', fb_score = 10\<rparr>,
      \<lparr>fb_stage = ''review'', fb_text = ''fine'', fb_score = 2\<rparr>]"

text \<open>A table that was loaded from a file without the column \<^verbatim>\<open>signal_score\<close>.\<close>

definition frame_without_score :: dataframe where
  "frame_without_score =
     \<lparr>columns = [''checkout_stage'', ''feedback_text''],
      rows = [\<lambda>c. if c = ''checkout_stage'' then Str ''cart'' else Str ''slow load'']\<rparr>"

text \<open>A test double for the platform: one file, a service that answers whenever a
  credential is present, and decimal renderings that are right for the small
  non-negative numbers of the inputs above.\<close>

definition one_decimal :: "rat \<Rightarrow> string" where
  "one_decimal x = str_nat (nat \<lfloor>x\<rfloor>) @ ''.'' @ str_nat (nat \<lfloor>x * 10\<rfloor> mod 10)"

definition two_decimals :: "cell \<Rightarrow> string" where
  "two_decimals c =
     (case c of
        Num x \<Rightarrow>
          (let n = nat \<lfloor>x * 100 + 1 / 2\<rfloor>
           in str_nat (n div 100) @ ''.'' @ str_nat (n div 10 mod 10) @ str_nat (n mod 10))
      | NaN \<Rightarrow> ''nan''
      | Str s \<Rightarrow> s)"

definition stub_platform :: "dataframe \<Rightarrow> platform" where
  "stub_platform df =
     \<lparr>environ = [''ANTHROPIC_API_KEY'' \<mapsto> ''test-key''],
      read_csv = (\<lambda>path. if path = ''feedback.csv'' then Inr df
                         else Inl (LoadError ''FileNotFoundError'')),
      new_client = (\<lambda>key. None),
      messages_create = (\<lambda>key req. if truthy key then Inr [''THEMES: speed'']
                                    else Inl (APIError ''AuthenticationError'')),
      repr_float = one_decimal,
      format_2f = two_decimals\<rparr>"

definition empty_world :: world where
  "empty_world = \<lparr>loads = [], requests = [], stdout = []\<rparr>"

definition test_analyzer :: analyzer where
  "test_analyzer = \<lparr>client_api_key = Some ''test-key''\<rparr>"

section \<open>Keys of the frequency table\<close>

lemma unique_counts_snoc: "unique_counts (cs @ [v]) = count_value v (unique_counts cs)"
  by (simp add: unique_counts_def)

lemma keys_count_value:
  "map fst (count_value v U) = (if v \<in> set (map fst U) then map fst U else map fst U @ [v])"
  by (induction v U rule: count_value.induct) force+

lemma set_keys_unique_counts: "set (map fst (unique_counts cs)) = set cs"
  by (induction cs rule: rev_induct)
     (auto simp: unique_counts_snoc keys_count_value unique_counts_def)

lemma distinct_keys_unique_counts: "distinct (map fst (unique_counts cs))"
proof (induction cs rule: rev_induct)
  case Nil
  show ?case by (simp add: unique_counts_def)
next
  case (snoc v cs)
  then show ?case
    by (simp add: unique_counts_snoc keys_count_value)
qed

lemma distinct_map_insort_key:
  "distinct (map g (insort_key f x xs)) = (g x \<notin> g ` set xs \<and> distinct (map g xs))"
  by (induction xs) (auto simp: set_insort_key)

lemma distinct_map_sort_key: "distinct (map g (sort_key f xs)) = distinct (map g xs)"
  by (induction xs) (simp_all add: distinct_map_insort_key)

lemma distinct_keys_value_counts: "distinct (map fst (value_counts cs))"
  by (simp add: value_counts_def distinct_map_sort_key distinct_keys_unique_counts)

lemma dict_set_new: "k \<notin> fst ` set d \<Longrightarrow> dict_set d k v = d @ [(k, v)]"
  by (induction d) auto

text \<open>A table with distinct keys becomes the dictionary with the same entries.\<close>

lemma to_dict_distinct: "distinct (map fst s) \<Longrightarrow> to_dict s = s"
proof (induction s rule: rev_induct)
  case Nil
  show ?case by (simp add: to_dict_def)
next
  case (snoc kv s)
  then have "to_dict s = s" and "fst kv \<notin> fst ` set s" by simp_all
  then show ?case by (simp add: to_dict_def dict_set_new)
qed

lemma top_stages_dict: "to_dict (head 3 (value_counts cs)) = take 3 (value_counts cs)"
  unfolding head_def
  by (rule to_dict_distinct) (simp add: take_map [symmetric] distinct_take distinct_keys_value_counts)

section \<open>Tables built from feedback rows\<close>

lemma df_getitem_frame_of_score:
  "df_getitem (frame_of T) ''signal_score'' = Inr (map (\<lambda>t. Num (fb_score t)) T)"
  by (simp add: df_getitem_def frame_of_def row_of_def)

lemma df_getitem_frame_of_stage:
  "df_getitem (frame_of T) ''checkout_stage'' = Inr (map (\<lambda>t. Str (fb_stage t)) T)"
  by (simp add: df_getitem_def frame_of_def row_of_def)

lemma row_getitem_frame_of:
  "row_getitem (frame_of S) (row_of t) ''checkout_stage'' = Inr (Str (fb_stage t))"
  "row_getitem (frame_of S) (row_of t) ''feedback_text'' = Inr (Str (fb_text t))"
  "row_getitem (frame_of S) (row_of t) ''signal_score'' = Inr (Num (fb_score t))"
  by (simp_all add: row_getitem_def frame_of_def row_of_def)

lemma iterrows_frame_of: "iterrows (frame_of T) = map row_of T"
  by (simp add: iterrows_def frame_of_def)

lemma series_gt_numbers:
  "series_gt (map (\<lambda>t. Num (f t)) T) x = Inr (map (\<lambda>t. x < f t) T)"
  by (induction T) simp_all

lemma mask_rows:
  "map fst (filter snd (zip (map g T) (map p T))) = map g (filter p T)"
  by (induction T) simp_all

lemma df_mask_frame_of:
  "df_mask (frame_of T) (map p T) = frame_of (filter p T)"
  by (simp add: df_mask_def frame_of_def mask_rows)

lemma nan_sum_count_numbers:
  "nan_sum_count (map (\<lambda>t. Num (f t)) T) = Inr (sum_list (map f T), length T)"
  by (induction T) simp_all

lemma series_mean_numbers:
  "series_mean (map (\<lambda>t. Num (f t)) T) =
     Inr (if T = [] then NaN else Num (sum_list (map f T) / of_nat (length T)))"
  by (simp add: series_mean_def nan_sum_count_numbers)

lemma extract_signals_frame_of:
  "extract_signals analysis (frame_of T) =
     Inr \<lparr>summary = analysis,
          high_priority_count = length (filter (\<lambda>t. 7 < fb_score t) T),
          total_analyzed = length T,
          top_stages = take 3 (value_counts (map (\<lambda>t. Str (fb_stage t)) T)),
          avg_signal_score =
            (if T = [] then NaN else Num (sum_list (map fb_score T) / of_nat (length T)))\<rparr>"
  by (simp add: extract_signals_def df_getitem_frame_of_score df_getitem_frame_of_stage
      series_gt_numbers df_mask_frame_of series_mean_numbers df_len_def top_stages_dict)
     (simp add: frame_of_def)

lemma append_rows_frame_of:
  "append_rows P (frame_of S) (map row_of T) acc =
     Inr (acc @ concat (map (\<lambda>t. feedback_line P t @ ''\<newline>'') T))"
  by (induction T arbitrary: acc) (simp_all add: row_getitem_frame_of feedback_line_def)

lemma prepare_feedback_frame_of:
  "prepare_feedback P (frame_of T) =
     Inr (''High-priority customer feedback:\<newline>\<newline>''
          @ concat (map (\<lambda>t. feedback_line P t @ ''\<newline>'')
                      (filter (\<lambda>t. 7 < fb_score t) T)))"
  by (simp only: prepare_feedback_def df_getitem_frame_of_score series_gt_numbers sum.case
      df_mask_frame_of iterrows_frame_of append_rows_frame_of Let_def)

section \<open>Statistics over the whole table\<close>


text \<open>
  C2. For every feedback table, \<open>high_priority_count\<close> is the number of rows whose
  score is strictly greater than 7.0, \<open>total_analyzed\<close> is the number of rows, and the
  former never exceeds the latter.
\<close>

theorem high_priority_count_le_total_analyzed:
  "\<exists>r. extract_signals analysis (frame_of T) = Inr r
     \<and> high_priority_count r = length (filter (\<lambda>t. 7 < fb_score t) T)
     \<and> total_analyzed r = length T
     \<and> high_priority_count r \<le> total_analyzed r"
  by (simp add: extract_signals_frame_of)

text \<open>The inequality does not depend on the cells being well-typed: it holds for any
  table on which the extraction returns.\<close>

lemma high_priority_le_total_any_frame:
  assumes "extract_signals analysis df = Inr r"
  shows "high_priority_count r \<le> total_analyzed r"
proof -
  have "length (filter snd (zip (rows df) m)) \<le> length (rows df)" for m
    using length_filter_le [of snd "zip (rows df) m"] by simp
  then show ?thesis
    using assms
    by (auto simp: extract_signals_def df_len_def df_mask_def split: sum.splits)
qed

text \<open>
  C9. For the feedback table without rows, \<open>total_analyzed\<close> and
  \<open>high_priority_count\<close> are 0 and \<open>avg_signal_score\<close> is the missing value \<open>NaN\<close>;
  the scores of such a table have no arithmetic mean.
\<close>

theorem empty_table_signals:
  "extract_signals analysis (frame_of []) =
     Inr \<lparr>summary = analysis, high_priority_count = 0, total_analyzed = 0,
          top_stages = [], avg_signal_score = NaN\<rparr>
   \<and> arithmetic_mean (map fb_score []) = None"
  by (simp add: extract_signals_frame_of arithmetic_mean_def value_counts_def dropna_def
      unique_counts_def)

section \<open>Selecting and formatting\<close>

text \<open>
  C3. For every feedback table the formatted block is the header followed by one line
  per row whose score is strictly greater than 7.0, and by no other row; the lines
  stand in the order of the table, and each has the form
  \<^verbatim>\<open>[stage] text (score: score)\<close> with the score as the host language renders it.
\<close>

theorem prepare_feedback_selects_in_order:
  "prepare_feedback P (frame_of T) =
     Inr (''High-priority customer feedback:\<newline>\<newline>''
          @ concat (map (\<lambda>t. ''['' @ fb_stage t @ ''] '' @ fb_text t
                             @ '' (score: '' @ repr_float P (fb_score t) @ '')'' @ ''\<newline>'')
                      (filter (\<lambda>t. 7 < fb_score t) T)))"
  by (simp add: prepare_feedback_frame_of feedback_line_def)

lemma requests_call_claude_api:
  "requests (fst (call_claude_api P self txt w)) =
     requests w @ [\<lparr>model = ''claude-sonnet-4-20250514'', max_tokens = 1500,
                     content = prompt txt\<rparr>]"
  by (simp add: call_claude_api_def Let_def split: sum.splits list.splits)

lemma analyze_batch_requests:
  assumes "read_csv P path = Inr df" and "prepare_feedback P df = Inr txt"
  shows "requests (fst (analyze_batch P self path w)) =
     requests w @ [\<lparr>model = ''claude-sonnet-4-20250514'', max_tokens = 1500,
                     content = prompt txt\<rparr>]"
proof -
  let ?w1 = "w\<lparr>loads := loads w @ [path]\<rparr>"
  have "fst (analyze_batch P self path w) = fst (call_claude_api P self txt ?w1)"
    using assms by (simp add: analyze_batch_def Let_def split: prod.splits sum.splits)
  then show ?thesis by (simp add: requests_call_claude_api)
qed

lemma read_csv_stub: "read_csv (stub_platform df) ''feedback.csv'' = Inr df"
  by (simp add: stub_platform_def)

text \<open>
  C4. For every feedback table in which no row has a score strictly greater than 7.0,
  the formatted block is the header line alone (with the blank line that ends it), and
  the analysis still sends one request to the remote summarizer, whose content is the
  instruction template around that block.
\<close>

theorem header_only_when_nothing_selected:
  assumes "\<forall>t \<in> set T. \<not> 7 < fb_score t" and "read_csv P path = Inr (frame_of T)"
  shows "prepare_feedback P (frame_of T) = Inr ''High-priority customer feedback:\<newline>\<newline>''
    \<and> requests (fst (analyze_batch P self path w)) =
        requests w @ [\<lparr>model = ''claude-sonnet-4-20250514'', max_tokens = 1500,
                        content = prompt ''High-priority customer feedback:\<newline>\<newline>''\<rparr>]"
proof -
  have "filter (\<lambda>t. 7 < fb_score t) T = []"
    using assms(1) by (simp add: filter_empty_conv)
  then have p: "prepare_feedback P (frame_of T) =
      Inr ''High-priority customer feedback:\<newline>\<newline>''"
    by (simp add: prepare_feedback_frame_of)
  show ?thesis using p analyze_batch_requests [OF assms(2) p] by simp
qed

text \<open>A table whose scores are 3 and exactly 7: nothing is selected, one request is sent.\<close>

theorem header_only_when_nothing_selected_witness:
  "prepare_feedback (stub_platform (frame_of quiet_table)) (frame_of quiet_table) =
     Inr ''High-priority customer feedback:\<newline>\<newline>''
   \<and> requests (fst (analyze_batch (stub_platform (frame_of quiet_table))
                      test_analyzer ''feedback.csv'' empty_world)) =
       [\<lparr>model = ''claude-sonnet-4-20250514'', max_tokens = 1500,
         content = prompt ''High-priority customer feedback:\<newline>\<newline>''\<rparr>]"
proof -
  have quiet: "\<forall>t \<in> set quiet_table. \<not> 7 < fb_score t"
    by (simp add: quiet_table_def)
  show ?thesis
    using header_only_when_nothing_selected [OF quiet read_csv_stub,
        of test_analyzer empty_world]
    by (simp add: empty_world_def)
qed

section \<open>Failures before the remote call\<close>

text \<open>
  C7, as the code has it. The reader does not look at column names, so a file without
  the column \<^verbatim>\<open>signal_score\<close> loads; the analysis then fails in the selection step with
  a \<open>KeyError\<close> for that column, and no request is sent to the remote summarizer.
\<close>

theorem missing_score_column_key_error:
  assumes "read_csv P path = Inr df" and "''signal_score'' \<notin> set (columns df)"
  shows "analyze_batch P self path w =
           (w\<lparr>loads := loads w @ [path]\<rparr>, Inl (KeyError ''signal_score''))"
  using assms by (simp add: analyze_batch_def prepare_feedback_def df_getitem_def)

theorem missing_score_column_key_error_witness:
  "analyze_batch (stub_platform frame_without_score) test_analyzer ''feedback.csv''
     empty_world =
     (\<lparr>loads = [''feedback.csv''], requests = [], stdout = []\<rparr>,
      Inl (KeyError ''signal_score''))"
proof -
  have "''signal_score'' \<notin> set (columns frame_without_score)"
    by (simp add: frame_without_score_def)
  from missing_score_column_key_error [OF read_csv_stub this]
  show ?thesis by (simp add: empty_world_def)
qed

text \<open>
  C7, as the specification states it, fails: on a file without the column the load step
  returns a table, and the error that ends the analysis is the \<open>KeyError\<close> of the
  selection step, not an error of the loader.
\<close>

theorem load_succeeds_without_score_column:
  "read_csv (stub_platform frame_without_score) ''feedback.csv'' = Inr frame_without_score
   \<and> prepare_feedback (stub_platform frame_without_score) frame_without_score =
       Inl (KeyError ''signal_score'')
   \<and> snd (analyze_batch (stub_platform frame_without_score) test_analyzer
            ''feedback.csv'' empty_world) =
       Inl (KeyError ''signal_score'')"
  by (simp add: analyze_batch_def prepare_feedback_def df_getitem_def read_csv_stub)
     (simp add: frame_without_score_def)

text \<open>
  C8. Started without a positional argument, the program prints the usage message and
  exits with status 1; it loads no file and sends no request.
\<close>

theorem usage_on_missing_argument:
  assumes "length argv < 2"
  shows "main P argv w =
           (w\<lparr>stdout := stdout w @ [''Usage: python analyzer.py <path_to_feedback.csv>'']\<rparr>,
            Exit 1)
         \<and> exit_code (snd (main P argv w)) \<noteq> 0
         \<and> loads (fst (main P argv w)) = loads w
         \<and> requests (fst (main P argv w)) = requests w"
  using assms by (simp add: main_def print_def)

theorem usage_on_missing_argument_witness:
  "main (stub_platform (frame_of scenario_table)) [''analyzer.py''] empty_world =
     (\<lparr>loads = [], requests = [],
       stdout = [''Usage: python analyzer.py <path_to_feedback.csv>'']\<rparr>, Exit 1)"
proof -
  have "length [''analyzer.py''] < 2" by simp
  from usage_on_missing_argument [OF this]
  show ?thesis by (simp add: empty_world_def)
qed

section \<open>The frequency table of stages\<close>

lemma map_of_count_value:
  "map_of (count_value v U) =
     (map_of U)(v \<mapsto> (case map_of U v of None \<Rightarrow> 1 | Some m \<Rightarrow> Suc m))"
  by (induction U) (auto simp: fun_eq_iff)

lemma map_of_unique_counts:
  "map_of (unique_counts cs) k = (if k \<in> set cs then Some (count_list cs k) else None)"
proof (induction cs rule: rev_induct)
  case Nil
  show ?case by (simp add: unique_counts_def)
next
  case (snoc v cs)
  then show ?case
    by (auto simp: unique_counts_snoc map_of_count_value count_list_0_iff)
qed

lemma unique_counts_count:
  assumes "(k, n) \<in> set (unique_counts cs)"
  shows "n = count_list cs k"
proof -
  have "map_of (unique_counts cs) k = Some n"
    using assms distinct_keys_unique_counts by simp
  then show ?thesis
    by (simp add: map_of_unique_counts split: if_splits)
qed

lemma first_pos_snoc_mem: "a \<in> set cs \<Longrightarrow> first_pos a (cs @ [v]) = first_pos a cs"
  by (auto simp: first_pos_def takeWhile_append)

lemma first_pos_snoc_new: "v \<notin> set cs \<Longrightarrow> first_pos v (cs @ [v]) = length cs"
  by (auto simp: first_pos_def takeWhile_append)

lemma first_pos_less: "a \<in> set cs \<Longrightarrow> first_pos a cs < length cs"
  unfolding first_pos_def by (induction cs) auto

text \<open>Counting keeps the distinct values in the order of their first occurrence.\<close>

lemma keys_unique_counts_order:
  "sorted_wrt (\<lambda>a b. first_pos a cs < first_pos b cs) (map fst (unique_counts cs))"
proof (induction cs rule: rev_induct)
  case Nil
  show ?case by (simp add: unique_counts_def)
next
  case (snoc v cs)
  let ?ks = "map fst (unique_counts cs)"
  have "set ?ks = set cs" by (rule set_keys_unique_counts)
  then have ks: "fst ` set (unique_counts cs) = set cs" by simp
  have old: "sorted_wrt (\<lambda>a b. first_pos a (cs @ [v]) < first_pos b (cs @ [v])) ?ks"
    using snoc.IH
    by (rule sorted_wrt_mono_rel [rotated]) (simp add: ks first_pos_snoc_mem)
  show ?case
  proof (cases "v \<in> set cs")
    case True
    then show ?thesis using old by (simp add: unique_counts_snoc keys_count_value ks)
  next
    case False
    have "\<forall>a \<in> set ?ks. first_pos a (cs @ [v]) < first_pos v (cs @ [v])"
      using False by (simp add: ks first_pos_snoc_mem first_pos_snoc_new first_pos_less)
    then show ?thesis
      using old False
      by (simp add: unique_counts_snoc keys_count_value ks sorted_wrt_append)
  qed
qed

text \<open>
  A stable insertion sort turns a list that is ordered by \<open>R\<close> into one that is ordered
  by the key first and by \<open>R\<close> among equal keys.
\<close>

lemma insort_key_lex:
  assumes "sorted_wrt (\<lambda>a b. f a < f b \<or> (f a = f b \<and> R a b)) ys"
    and "\<forall>y \<in> set ys. R x y"
  shows "sorted_wrt (\<lambda>a b. f a < f b \<or> (f a = f b \<and> R a b)) (insort_key f x ys)"
  using assms
proof (induction ys)
  case Nil
  then show ?case by simp
next
  case (Cons y ys)
  show ?case
  proof (cases "f x \<le> f y")
    case True
    have "\<forall>z \<in> set ys. f y \<le> f z" using Cons.prems(1) by auto
    then have "\<forall>z \<in> set (y # ys). f x < f z \<or> (f x = f z \<and> R x z)"
      using True Cons.prems(2) by fastforce
    then show ?thesis using True Cons.prems(1) by simp
  next
    case False
    then show ?thesis using Cons by (auto simp: set_insort_key)
  qed
qed

lemma sort_key_lex:
  "sorted_wrt R xs \<Longrightarrow>
   sorted_wrt (\<lambda>a b. f a < f b \<or> (f a = f b \<and> R a b)) (sort_key f xs)"
proof (induction xs)
  case Nil
  then show ?case by simp
next
  case (Cons x xs)
  then show ?case by (simp add: insort_key_lex)
qed

lemma dropna_id: "NaN \<notin> set cs \<Longrightarrow> dropna cs = cs"
  by (auto simp: dropna_def filter_id_conv)

lemma value_counts_keys:
  assumes "NaN \<notin> set cs"
  shows "set (map fst (value_counts cs)) = set cs" and "distinct (map fst (value_counts cs))"
  using assms set_keys_unique_counts [of cs] distinct_keys_unique_counts [of cs]
  by (simp_all add: value_counts_def dropna_id distinct_map_sort_key)

lemma value_counts_count:
  assumes "NaN \<notin> set cs" and "(k, n) \<in> set (value_counts cs)"
  shows "n = count_list cs k"
  using assms unique_counts_count [of k n cs] by (simp add: value_counts_def dropna_id)

lemma value_counts_eq:
  assumes "NaN \<notin> set cs"
  shows "value_counts cs = map (\<lambda>k. (k, count_list cs k)) (map fst (value_counts cs))"
proof -
  have "\<forall>kn \<in> set (value_counts cs). kn = (fst kn, count_list cs (fst kn))"
    using value_counts_count [OF assms] by (metis prod.collapse)
  then have "map (\<lambda>kn. (fst kn, count_list cs (fst kn))) (value_counts cs) = value_counts cs"
    by (simp add: map_idI)
  then show ?thesis by (simp add: comp_def)
qed

lemma value_counts_order:
  assumes "NaN \<notin> set cs"
  shows "sorted_wrt (ranks_before cs) (map fst (value_counts cs))"
proof -
  let ?f = "\<lambda>kn::cell \<times> nat. - int (snd kn)"
  let ?R = "\<lambda>a b::cell \<times> nat. first_pos (fst a) cs < first_pos (fst b) cs"
  have "sorted_wrt ?R (unique_counts cs)"
    using keys_unique_counts_order [of cs] by (simp add: sorted_wrt_map)
  then have "sorted_wrt (\<lambda>a b. ?f a < ?f b \<or> (?f a = ?f b \<and> ?R a b))
               (sort_key ?f (unique_counts cs))"
    by (rule sort_key_lex)
  then have "sorted_wrt (\<lambda>a b. ?f a < ?f b \<or> (?f a = ?f b \<and> ?R a b)) (value_counts cs)"
    by (simp only: value_counts_def dropna_id [OF assms])
  then have "sorted_wrt (\<lambda>a b. ranks_before cs (fst a) (fst b)) (value_counts cs)"
  proof (rule sorted_wrt_mono_rel [rotated])
    fix a b
    assume a: "a \<in> set (value_counts cs)" and b: "b \<in> set (value_counts cs)"
      and lex: "?f a < ?f b \<or> (?f a = ?f b \<and> ?R a b)"
    have "snd a = count_list cs (fst a)" "snd b = count_list cs (fst b)"
      using value_counts_count [OF assms, of "fst a" "snd a"]
        value_counts_count [OF assms, of "fst b" "snd b"] a b by simp_all
    then show "ranks_before cs (fst a) (fst b)"
      using lex by (auto simp: ranks_before_def)
  qed
  then show ?thesis by (simp add: sorted_wrt_map)
qed

lemma top_three:
  assumes "NaN \<notin> set cs"
  defines "ks \<equiv> take 3 (map fst (value_counts cs))"
  shows "take 3 (value_counts cs) = map (\<lambda>k. (k, count_list cs k)) ks"
    and "distinct ks" and "set ks \<subseteq> set cs"
    and "length ks = min 3 (card (set cs))"
    and "sorted_wrt (ranks_before cs) ks"
    and "\<forall>s \<in> set cs - set ks. \<forall>k \<in> set ks. ranks_before cs k s"
proof -
  let ?all = "map fst (value_counts cs)"
  have set_all: "set ?all = set cs" and dist: "distinct ?all"
    using value_counts_keys [OF assms(1)] by blast+
  have ord: "sorted_wrt (ranks_before cs) ?all"
    by (rule value_counts_order [OF assms(1)])
  show "take 3 (value_counts cs) = map (\<lambda>k. (k, count_list cs k)) ks"
    unfolding ks_def by (subst value_counts_eq [OF assms(1)]) (simp add: take_map)
  show "distinct ks" unfolding ks_def using dist by (rule distinct_take)
  show "set ks \<subseteq> set cs" unfolding ks_def using set_all set_take_subset by fastforce
  have "length ?all = card (set cs)"
    using distinct_card [OF dist] set_all by simp
  then show "length ks = min 3 (card (set cs))" unfolding ks_def by simp
  show "sorted_wrt (ranks_before cs) ks" unfolding ks_def using ord by (rule sorted_wrt_take)
  have parts: "sorted_wrt (ranks_before cs) (take 3 ?all @ drop 3 ?all)"
    using ord by simp
  have "set (take 3 ?all) \<union> set (drop 3 ?all) = set cs"
    using set_all by (metis append_take_drop_id set_append)
  then have "set cs - set ks \<subseteq> set (drop 3 ?all)"
    unfolding ks_def by blast
  then show "\<forall>s \<in> set cs - set ks. \<forall>k \<in> set ks. ranks_before cs k s"
    using parts unfolding ks_def sorted_wrt_append by blast
qed

lemma count_list_inj_map: "inj f \<Longrightarrow> count_list (map f xs) (f a) = count_list xs a"
  by (induction xs) (auto dest: injD)

lemma first_pos_inj_map: "inj f \<Longrightarrow> first_pos (f a) (map f xs) = first_pos a xs"
  by (simp add: first_pos_def takeWhile_map comp_def inj_eq)

lemma ranks_before_inj_map:
  "inj f \<Longrightarrow> ranks_before (map f xs) (f a) (f b) = ranks_before xs a b"
  by (simp add: ranks_before_def count_list_inj_map first_pos_inj_map)

text \<open>
  C5. For every feedback table, \<open>top_stages\<close> lists stage values with the number of
  rows that carry them: three of them, or all when the table has fewer distinct stages.
  The list is in ranking order (descending count, equal counts in order of first
  appearance in the table), and every stage left out ranks after every stage listed.
\<close>

theorem top_stages_three_most_frequent:
  "\<exists>r ks. extract_signals analysis (frame_of T) = Inr r
     \<and> top_stages r = map (\<lambda>s. (Str s, count_list (map fb_stage T) s)) ks
     \<and> distinct ks
     \<and> set ks \<subseteq> set (map fb_stage T)
     \<and> length ks = min 3 (card (set (map fb_stage T)))
     \<and> sorted_wrt (ranks_before (map fb_stage T)) ks
     \<and> (\<forall>s \<in> set (map fb_stage T) - set ks. \<forall>k \<in> set ks.
           ranks_before (map fb_stage T) k s)"
proof -
  define stages where "stages = map fb_stage T"
  define cs where "cs = map Str stages"
  define cks where "cks = take 3 (map fst (value_counts cs))"
  have inj: "inj Str" by (simp add: inj_def)
  have nonan: "NaN \<notin> set cs" by (auto simp: cs_def)
  note t3 = top_three [OF nonan, folded cks_def]
  have "\<forall>c \<in> set cks. \<exists>s. c = Str s" using t3(3) by (auto simp: cs_def)
  then have "\<exists>ks. cks = map Str ks" by (simp only: ex_map_conv)
  then obtain ks where ks: "cks = map Str ks" ..
  have "map (\<lambda>k. (k, count_list cs k)) (map Str ks) =
        map (\<lambda>s. (Str s, count_list stages s)) ks"
    by (simp add: cs_def count_list_inj_map [OF inj])
  then have top: "take 3 (value_counts cs) = map (\<lambda>s. (Str s, count_list stages s)) ks"
    using t3(1) by (simp only: ks)
  have d: "distinct ks" using t3(2) by (simp add: ks distinct_map)
  have sub: "set ks \<subseteq> set stages"
  proof
    fix s assume "s \<in> set ks"
    then have "Str s \<in> set cks" by (simp add: ks)
    then have "Str s \<in> set cs" using t3(3) by blast
    then show "s \<in> set stages" by (auto simp: cs_def)
  qed
  have "card (set cs) = card (set stages)"
    using card_image [of Str "set stages"] inj by (simp add: inj_on_def cs_def)
  then have len: "length ks = min 3 (card (set stages))"
    using t3(4) by (simp add: ks)
  have "sorted_wrt (\<lambda>a b. ranks_before cs (Str a) (Str b)) ks"
    using t3(5) by (simp add: ks sorted_wrt_map)
  then have ord: "sorted_wrt (ranks_before stages) ks"
    by (simp add: cs_def ranks_before_inj_map [OF inj])
  have rest: "\<forall>s \<in> set stages - set ks. \<forall>k \<in> set ks. ranks_before stages k s"
  proof (intro ballI)
    fix s k assume s: "s \<in> set stages - set ks" and k: "k \<in> set ks"
    have "Str s \<in> set cs - set cks" using s by (auto simp: ks cs_def)
    moreover have "Str k \<in> set cks" using k by (simp add: ks)
    ultimately have "ranks_before cs (Str k) (Str s)" using t3(6) by blast
    then show "ranks_before stages k s" by (simp add: cs_def ranks_before_inj_map [OF inj])
  qed
  have "map (\<lambda>t. Str (fb_stage t)) T = cs" by (simp add: cs_def stages_def)
  then have "extract_signals analysis (frame_of T) =
     Inr \<lparr>summary = analysis,
          high_priority_count = length (filter (\<lambda>t. 7 < fb_score t) T),
          total_analyzed = length T,
          top_stages = map (\<lambda>s. (Str s, count_list stages s)) ks,
          avg_signal_score =
            (if T = [] then NaN else Num (sum_list (map fb_score T) / of_nat (length T)))\<rparr>"
    using top by (simp add: extract_signals_frame_of)
  then show ?thesis using d sub len ord rest unfolding stages_def by auto
qed

lemma value_counts_tie_table:
  "value_counts (map (\<lambda>t. Str (fb_stage t)) tie_table) =
     [(Str ''payment'', 2), (Str ''cart'', 1), (Str ''shipping'', 1), (Str ''review'', 1)]"
  by (simp add: tie_table_def value_counts_def dropna_def unique_counts_def)

text \<open>
  Five rows over four stages, three of them with one row each: \<^verbatim>\<open>payment\<close> leads,
  \<^verbatim>\<open>cart\<close> and \<^verbatim>\<open>shipping\<close> follow in table order, and \<^verbatim>\<open>review\<close>, seen last, is the
  stage left out.
\<close>

theorem top_stages_three_most_frequent_witness:
  "\<exists>r. extract_signals ''THEMES: speed'' (frame_of tie_table) = Inr r
     \<and> top_stages r = [(Str ''payment'', 2), (Str ''cart'', 1), (Str ''shipping'', 1)]
     \<and> ranks_before (map fb_stage tie_table) ''payment'' ''review''
     \<and> ranks_before (map fb_stage tie_table) ''cart'' ''review''
     \<and> ranks_before (map fb_stage tie_table) ''shipping'' ''review''"
proof -
  obtain r ks where r: "extract_signals ''THEMES: speed'' (frame_of tie_table) = Inr r"
    and top: "top_stages r = map (\<lambda>s. (Str s, count_list (map fb_stage tie_table) s)) ks"
    and rest: "\<forall>s \<in> set (map fb_stage tie_table) - set ks. \<forall>k \<in> set ks.
                 ranks_before (map fb_stage tie_table) k s"
    using top_stages_three_most_frequent [of "''THEMES: speed''" tie_table] by blast
  have val: "top_stages r = [(Str ''payment'', 2), (Str ''cart'', 1), (Str ''shipping'', 1)]"
    using r by (auto simp: extract_signals_frame_of value_counts_tie_table)
  then have "map (\<lambda>s. (Str s, count_list (map fb_stage tie_table) s)) ks =
      [(Str ''payment'', 2), (Str ''cart'', 1), (Str ''shipping'', 1)]"
    using top by simp
  then have "map fst (map (\<lambda>s. (Str s, count_list (map fb_stage tie_table) s)) ks) =
      map fst [(Str ''payment'', 2 :: nat), (Str ''cart'', 1), (Str ''shipping'', 1)]"
    by (rule arg_cong)
  then have "map Str ks = [Str ''payment'', Str ''cart'', Str ''shipping'']"
    by (simp add: comp_def)
  then have ks: "ks = [''payment'', ''cart'', ''shipping'']"
    by (auto simp: map_eq_Cons_conv)
  have "''review'' \<in> set (map fb_stage tie_table) - set ks"
    by (simp add: ks tie_table_def)
  then have "\<forall>k \<in> set ks. ranks_before (map fb_stage tie_table) k ''review''"
    using rest by blast
  then show ?thesis using r val by (simp add: ks)
qed

section \<open>The scenario of the specification\<close>

lemma value_counts_scenario_table:
  "value_counts (map (\<lambda>t. Str (fb_stage t)) scenario_table) =
     [(Str ''cart'', 2), (Str ''shipping'', 1)]"
  by (simp add: scenario_table_def value_counts_def dropna_def unique_counts_def)

text \<open>
  C6, as the code has it. On the table \<^verbatim>\<open>(cart, slow load, 8.5)\<close>,
  \<^verbatim>\<open>(shipping, confusing form, 9.0)\<close>, \<^verbatim>\<open>(cart, fine, 3.0)\<close> the result has
  \<open>total_analyzed = 3\<close>, \<open>high_priority_count = 2\<close>, \<open>top_stages\<close> with \<^verbatim>\<open>cart\<close> at 2
  before \<^verbatim>\<open>shipping\<close> at 1, and \<open>avg_signal_score = 20.5 / 3 = 41 / 6\<close>, the unrounded
  mean; it lies within 0.005 of 6.83, the value a rendering to two decimals shows.
\<close>

theorem scenario_signals:
  "extract_signals analysis (frame_of scenario_table) =
     Inr \<lparr>summary = analysis, high_priority_count = 2, total_analyzed = 3,
          top_stages = [(Str ''cart'', 2), (Str ''shipping'', 1)],
          avg_signal_score = Num (41 / 6)\<rparr>
   \<and> \<bar>41 / 6 - 683 / 100\<bar> < (1 / 200 :: rat)"
  by (simp add: extract_signals_frame_of value_counts_scenario_table)
     (simp add: scenario_table_def)

text \<open>
  C6, as the specification states it, fails: the field \<open>avg_signal_score\<close> of the result
  is not 6.83.
\<close>

theorem scenario_average_is_not_rounded:
  "extract_signals ''THEMES: speed'' (frame_of scenario_table) \<noteq>
     Inr \<lparr>summary = ''THEMES: speed'', high_priority_count = 2, total_analyzed = 3,
          top_stages = [(Str ''cart'', 2), (Str ''shipping'', 1)],
          avg_signal_score = Num (683 / 100)\<rparr>"
  by (simp add: extract_signals_frame_of value_counts_scenario_table)
     (simp add: scenario_table_def)

text \<open>
  The whole program on the scenario, with the test double as platform: one load, one
  request carrying the two selected rows, and the report, whose average is the mean
  rendered to two decimals.
\<close>

lemma main_scenario_run:
  "main (stub_platform (frame_of scenario_table)) [''analyzer.py'', ''feedback.csv''] empty_world =
     (\<lparr>loads = [''feedback.csv''],
       requests = [\<lparr>model = ''claude-sonnet-4-20250514'', max_tokens = 1500,
                    content = prompt (''High-priority customer feedback:\<newline>\<newline>''
                      @ ''[cart] slow load (score: 8.5)\<newline>''
                      @ ''[shipping] confusing form (score: 9.0)\<newline>'')\<rparr>],
       stdout = [''Analyzing feedback from: feedback.csv'',
                 ''\<newline>=== Analysis Results ==='',
                 ''Total entries analyzed: 3'',
                 ''High-priority signals: 2'',
                 ''Average signal score: 6.83'',
                 ''\<newline>Top checkout stages:'',
                 ''  - cart: 2'',
                 ''  - shipping: 1'',
                 ''\<newline>=== Claude Analysis ==='',
                 ''THEMES: speed'']\<rparr>, Completed)"
  by code_simp

section \<open>Credential resolution\<close>

text \<open>
  C10. The constructor hands the client \<^verbatim>\<open>api_key or os.environ.get("ANTHROPIC_API_KEY")\<close>.
  An argument that is absent and an argument that is the empty string are treated
  alike: the client gets the value of the environment variable (which may itself be
  absent). A non-empty argument is the credential of the client whatever the
  environment holds.
\<close>

theorem init_credential_resolution:
  "init P None =
     (case new_client P (environ P ''ANTHROPIC_API_KEY'') of
        Some e \<Rightarrow> Inl e
      | None \<Rightarrow> Inr \<lparr>client_api_key = environ P ''ANTHROPIC_API_KEY''\<rparr>)
   \<and> init P (Some []) = init P None
   \<and> init P (Some (c # cs)) =
       (case new_client P (Some (c # cs)) of
          Some e \<Rightarrow> Inl e
        | None \<Rightarrow> Inr \<lparr>client_api_key = Some (c # cs)\<rparr>)"
  by (simp add: init_def py_or_def truthy_def Let_def)

end
